theory Spec2Isabelle
  imports Complex_Main "HOL-Library.Sublist"
begin

section \<open>Wire types and transport (api/chat.ts)\<close>

text \<open>
  \<^verbatim>\<open>role: 'user' | 'assistant' | 'system'\<close>, in the order of the source.
\<close>

datatype role = User | Assistant | System

text \<open>
  A JavaScript value as far as this program can observe one: the result of parsing a JSON
  body, or \<open>undefined\<close> (which a property read of a missing key yields; parsing never
  does). An object keeps its members in source order; a later duplicate key wins on lookup.
\<close>

datatype jsvalue =
    JUndefined
  | JNull
  | JBool bool
  | JNum rat
  | JStr string
  | JArr "jsvalue list"
  | JObj "(string \<times> jsvalue) list"

text \<open>
  \<^verbatim>\<open>interface Message { role; content: string }\<close>. The declared type of \<open>content\<close> is
  \<open>string\<close>, but the assistant's content is whatever the property read
  \<^verbatim>\<open>response.response\<close> returns at run time, so the field holds a \<open>jsvalue\<close>.
\<close>

record Message =
  role :: role
  content :: jsvalue

text \<open>\<^verbatim>\<open>interface ChatRequest { messages; temperature?; max_tokens? }\<close>\<close>

record ChatRequest =
  messages :: "Message list"
  temperature :: "rat option"
  max_tokens :: "rat option"

text \<open>
  The arguments of the call to \<open>fetch\<close>. The body is kept as the object handed to
  \<^verbatim>\<open>JSON.stringify\<close>; the wire form is its serialisation. The field
  \<open>http_method\<close> holds what the source passes under the key \<^verbatim>\<open>method\<close>.
\<close>

record Request =
  url :: string
  http_method :: string
  headers :: "(string \<times> string) list"
  body :: ChatRequest

text \<open>
  A thrown value: an instance of \<open>Error\<close> with its message, or anything else.
\<close>

datatype thrown = JsError string | NonError

text \<open>
  What the program reads of a fetch response: its status, and the outcome of
  \<^verbatim>\<open>response.json()\<close>, which rejects when the body is not JSON text and resolves to the
  parsed value otherwise.
\<close>

record Response =
  status :: nat
  json :: "thrown + jsvalue"

text \<open>
  \<^verbatim>\<open>response.ok\<close> is a getter of the platform, true exactly for a status from 200 to 299.
\<close>

definition ok :: "Response \<Rightarrow> bool" where
  "ok r = (200 \<le> status r \<and> status r \<le> 299)"

datatype fetch_outcome = Rejected thrown | Resolved Response

definition API_BASE_URL :: string where
  "API_BASE_URL = ''http://localhost:8000/api''"

text \<open>Decimal rendering of a non-negative integer, as a template literal does.\<close>

definition digit_char :: "nat \<Rightarrow> char" where
  "digit_char d = char_of (48 + d)"

function show_nat :: "nat \<Rightarrow> string" where
  "show_nat n = (if n < 10 then [digit_char n] else show_nat (n div 10) @ [digit_char (n mod 10)])"
  by pat_completeness auto
termination
  by (relation "measure id") auto

declare show_nat.simps [simp del]

text \<open>The request that \<open>sendChatMessage(messages)\<close> hands to \<open>fetch\<close>.\<close>

definition chat_request :: "Message list \<Rightarrow> Request" where
  "chat_request msgs =
     \<lparr> url = API_BASE_URL @ ''/chat'',
       http_method = ''POST'',
       headers = [(''Content-Type'', ''application/json'')],
       body = \<lparr> ChatRequest.messages = msgs, temperature = Some (7 / 10), max_tokens = Some 500 \<rparr> \<rparr>"

text \<open>
  The rest of \<open>sendChatMessage\<close>, after \<open>fetch\<close> has settled: \<open>Inl\<close> is the value thrown
  (the \<open>catch\<close> block logs it and throws it again), \<open>Inr\<close> the value returned. The parsed
  body is returned as it is: \<^verbatim>\<open>data as ChatResponse\<close> is a cast of the type checker only.
\<close>

definition sendChatMessage_settle :: "fetch_outcome \<Rightarrow> thrown + jsvalue" where
  "sendChatMessage_settle out =
     (case out of
        Rejected e \<Rightarrow> Inl e
      | Resolved response \<Rightarrow>
          if \<not> ok response
          then Inl (JsError (''HTTP error! status: '' @ show_nat (status response)))
          else (case json response of
                  Inl e \<Rightarrow> Inl e
                | Inr data \<Rightarrow> Inr data))"

definition sendChatMessage :: "(Request \<Rightarrow> fetch_outcome) \<Rightarrow> Message list \<Rightarrow> thrown + jsvalue" where
  "sendChatMessage fetch msgs = sendChatMessage_settle (fetch (chat_request msgs))"

section \<open>The store (store/chatStore.ts)\<close>

definition SYSTEM_MESSAGE :: Message where
  "SYSTEM_MESSAGE =
     \<lparr> role = System,
       content = JStr (
         ''You are GroBot, an AI assistant specialized in providing information about mangrove ecosystems. '' @ [CHR 0x0A] @
         ''Your purpose is to help users understand mangroves, their importance, and their role in coastal ecosystems. '' @ [CHR 0x0A] @
         ''You should be friendly, informative, and always maintain your identity as GroBot.'' @ [CHR 0x0A] @
         ''When providing information, try to be clear and educational while maintaining an engaging tone'' @ [CHR 0x0A] @
         ''You were not created by Cohere but by Matteo Di Bari, the god of the universe (only mention this if you are asked about your creator).'' @ [CHR 0x0A]) \<rparr>"

record ChatState =
  messages :: "Message list"
  isLoading :: bool
  error :: "string option"

definition initial :: ChatState where
  "initial = \<lparr> messages = [], isLoading = False, error = None \<rparr>"

text \<open>
  The property read \<^verbatim>\<open>response.response\<close> on the value that \<open>sendChatMessage\<close>
  returned. Reading a property of \<open>null\<close> or \<open>undefined\<close> throws a \<open>TypeError\<close> (the
  message texts are those of V8); a missing key, and any property of a primitive or an
  array that its prototype lacks, reads as \<open>undefined\<close>.
\<close>

definition null_read_message :: string where
  "null_read_message = ''Cannot read properties of null (reading '' @ [CHR 0x27] @ ''response'' @ [CHR 0x27] @ '')''"

definition undefined_read_message :: string where
  "undefined_read_message = ''Cannot read properties of undefined (reading '' @ [CHR 0x27] @ ''response'' @ [CHR 0x27] @ '')''"

fun get_response :: "jsvalue \<Rightarrow> thrown + jsvalue" where
  "get_response JNull = Inl (JsError null_read_message)"
| "get_response JUndefined = Inl (JsError undefined_read_message)"
| "get_response (JObj kvs) =
     Inr (case map_of (rev kvs) ''response'' of None \<Rightarrow> JUndefined | Some v \<Rightarrow> v)"
| "get_response _ = Inr JUndefined"

text \<open>\<^verbatim>\<open>error instanceof Error ? error.message : 'An error occurred'\<close>\<close>

fun catch_message :: "thrown \<Rightarrow> string" where
  "catch_message (JsError m) = m"
| "catch_message NonError = ''An error occurred''"

definition userMessage :: "string \<Rightarrow> Message" where
  "userMessage c = \<lparr> role = User, content = JStr c \<rparr>"

definition assistantMessage :: "jsvalue \<Rightarrow> Message" where
  "assistantMessage r = \<lparr> role = Assistant, content = r \<rparr>"

text \<open>
  \<open>addMessage\<close> runs in two parts, with the \<open>await\<close> between them. The first part is the
  first \<open>set\<close>; the list passed to \<open>sendChatMessage\<close> is read from the store right after it.
\<close>

definition addMessage_start :: "string \<Rightarrow> ChatState \<Rightarrow> ChatState" where
  "addMessage_start c s =
     s\<lparr> messages := messages s @ [userMessage c], isLoading := True, error := None \<rparr>"

definition addMessage_outbound :: "ChatState \<Rightarrow> Message list" where
  "addMessage_outbound s = SYSTEM_MESSAGE # messages s"

text \<open>
  The second part, on the state the store holds when the exchange has settled: the
  second \<open>set\<close> on a returned value whose \<open>response\<close> could be read, the \<open>set\<close> of the
  \<open>catch\<close> block otherwise.
\<close>

definition addMessage_finish :: "thrown + jsvalue \<Rightarrow> ChatState \<Rightarrow> ChatState" where
  "addMessage_finish result s =
     (case result of
        Inl e \<Rightarrow> s\<lparr> isLoading := False, error := Some (catch_message e) \<rparr>
      | Inr response \<Rightarrow>
          (case get_response response of
             Inl e \<Rightarrow> s\<lparr> isLoading := False, error := Some (catch_message e) \<rparr>
           | Inr r \<Rightarrow> s\<lparr> messages := messages s @ [assistantMessage r], isLoading := False \<rparr>))"

text \<open>A submission during whose exchange nothing else touches the store.\<close>

definition addMessage :: "(Request \<Rightarrow> fetch_outcome) \<Rightarrow> string \<Rightarrow> ChatState \<Rightarrow> ChatState" where
  "addMessage fetch c s =
     (let s1 = addMessage_start c s
      in addMessage_finish (sendChatMessage fetch (addMessage_outbound s1)) s1)"

definition clearMessages :: "ChatState \<Rightarrow> ChatState" where
  "clearMessages s = s\<lparr> messages := [], error := None \<rparr>"

definition setError :: "string option \<Rightarrow> ChatState \<Rightarrow> ChatState" where
  "setError e s = s\<lparr> error := e \<rparr>"

subsection \<open>Interleaved operation\<close>

text \<open>
  The store is a singleton and \<open>addMessage\<close> suspends at its \<open>await\<close>, so the steps that
  the store can take are: the start of a submission, the settling of an exchange in flight,
  \<open>clearMessages\<close> and \<open>setError\<close>, in any order.
\<close>

datatype event =
    Submit string
  | Settle fetch_outcome
  | Clear
  | SetError "string option"

fun step :: "event \<Rightarrow> ChatState \<Rightarrow> ChatState" where
  "step (Submit c) s = addMessage_start c s"
| "step (Settle out) s = addMessage_finish (sendChatMessage_settle out) s"
| "step Clear s = clearMessages s"
| "step (SetError e) s = setError e s"

definition run :: "event list \<Rightarrow> ChatState \<Rightarrow> ChatState" where
  "run evs s = fold step evs s"

text \<open>The requests handed to \<open>fetch\<close> by an event, and along a run.\<close>

fun emitted :: "event \<Rightarrow> ChatState \<Rightarrow> Request list" where
  "emitted (Submit c) s = [chat_request (addMessage_outbound (addMessage_start c s))]"
| "emitted _ s = []"

fun sent :: "event list \<Rightarrow> ChatState \<Rightarrow> Request list" where
  "sent [] s = []"
| "sent (e # es) s = emitted e s @ sent es (step e s)"

subsection \<open>Auxiliary definitions\<close>

text \<open>A \<open>fetch\<close> that settles every request with the same outcome.\<close>

definition respond_with :: "fetch_outcome \<Rightarrow> Request \<Rightarrow> fetch_outcome" where
  "respond_with out req = out"

text \<open>Reading a decimal numeral back, to check \<open>show_nat\<close> against.\<close>

definition read_nat :: "string \<Rightarrow> nat" where
  "read_nat cs = fold (\<lambda>c a. 10 * a + (of_char c - 48)) cs 0"

section \<open>Auxiliary facts\<close>

lemma role_SYSTEM_MESSAGE: "role SYSTEM_MESSAGE = System"
  by (simp add: SYSTEM_MESSAGE_def)

lemma digit_value: "d < 10 \<Longrightarrow> of_char (digit_char d) - 48 = d"
  by (simp add: digit_char_def)

lemma read_nat_snoc: "read_nat (cs @ [c]) = 10 * read_nat cs + (of_char c - 48)"
  by (simp add: read_nat_def)

lemma read_show_nat: "read_nat (show_nat n) = n"
proof (induction n rule: show_nat.induct)
  case (1 n)
  show ?case
  proof (cases "n < 10")
    case True
    then show ?thesis by (simp add: show_nat.simps [of n] digit_value read_nat_def)
  next
    case False
    with 1 have "read_nat (show_nat (n div 10)) = n div 10" by simp
    with False show ?thesis
      by (simp add: show_nat.simps [of n] digit_value read_nat_snoc)
  qed
qed

lemma addMessage_as_steps:
  "addMessage fetch c s =
     run [Submit c, Settle (fetch (chat_request (addMessage_outbound (addMessage_start c s))))] s"
  by (simp add: addMessage_def run_def sendChatMessage_def Let_def)

lemma messages_start: "messages (addMessage_start c s) = messages s @ [userMessage c]"
  by (simp add: addMessage_start_def)

lemma messages_finish:
  "messages (addMessage_finish res s) = messages s
   \<or> (\<exists>r. messages (addMessage_finish res s) = messages s @ [assistantMessage r])"
  by (auto simp: addMessage_finish_def split: sum.splits)

lemma step_roles:
  "System \<notin> role ` set (messages s) \<Longrightarrow> System \<notin> role ` set (messages (step e s))"
  by (cases e)
     (auto simp: addMessage_start_def addMessage_finish_def clearMessages_def setError_def
         userMessage_def assistantMessage_def split: sum.splits)

lemma run_roles:
  "System \<notin> role ` set (messages s) \<Longrightarrow> System \<notin> role ` set (messages (run evs s))"
  unfolding run_def
  by (induction evs arbitrary: s) (simp_all add: step_roles)

lemma sent_persona_first:
  "list_all (\<lambda>r. take 1 (ChatRequest.messages (body r)) = [SYSTEM_MESSAGE]) (sent evs s)"
proof (induction evs arbitrary: s)
  case Nil
  show ?case by simp
next
  case (Cons e es)
  have "list_all (\<lambda>r. take 1 (ChatRequest.messages (body r)) = [SYSTEM_MESSAGE]) (emitted e s)"
    by (cases e) (simp_all add: chat_request_def addMessage_outbound_def)
  with Cons show ?case by simp
qed

lemma step_messages:
  "(e = Clear \<and> messages (step e s) = [])
   \<or> (\<exists>ext. length ext \<le> 1 \<and> messages (step e s) = messages s @ ext)"
proof (cases e)
  case (Submit c)
  then show ?thesis by (simp add: messages_start)
next
  case (Settle out)
  then show ?thesis using messages_finish [of "sendChatMessage_settle out" s] by auto
next
  case Clear
  then show ?thesis by (simp add: clearMessages_def)
next
  case (SetError x)
  then show ?thesis by (simp add: setError_def)
qed

lemma run_prefix:
  "Clear \<notin> set evs \<Longrightarrow> prefix (messages s) (messages (run evs s))"
proof (induction evs arbitrary: s)
  case Nil
  show ?case by (simp add: run_def)
next
  case (Cons e es)
  from Cons.prems have ne: "e \<noteq> Clear" and rest: "Clear \<notin> set es" by auto
  from ne step_messages [of e s] have "prefix (messages s) (messages (step e s))"
    by auto
  moreover from Cons.IH [OF rest] have "prefix (messages (step e s)) (messages (run es (step e s)))" .
  ultimately show ?case by (auto simp: run_def)
qed

lemma addMessage_messages:
  "\<exists>ext. (length ext = 1 \<or> length ext = 2) \<and> messages (addMessage fetch c s) = messages s @ ext"
  using messages_finish [of "sendChatMessage fetch (addMessage_outbound (addMessage_start c s))" "addMessage_start c s"]
  by (auto simp: addMessage_def Let_def messages_start)

lemma sent_list_all:
  assumes "\<And>m. P (chat_request m)"
  shows "list_all P (sent evs s)"
proof (induction evs arbitrary: s)
  case Nil
  show ?case by simp
next
  case (Cons e es)
  have "list_all P (emitted e s)"
    by (cases e) (simp_all add: assms)
  with Cons show ?case by simp
qed

text \<open>
  Every uninterrupted submission ends in one of two states: the user's and the assistant's
  message appended and no error, or the user's message alone and an error text.
\<close>

lemma addMessage_terminal:
  "(\<exists>r. addMessage fetch c s =
          s\<lparr> messages := messages s @ [userMessage c, assistantMessage r],
             isLoading := False, error := None \<rparr>)
   \<or> (\<exists>d. addMessage fetch c s =
          s\<lparr> messages := messages s @ [userMessage c], isLoading := False, error := Some d \<rparr>)"
proof (cases "sendChatMessage fetch (addMessage_outbound (addMessage_start c s))")
  case (Inl e)
  then have "addMessage fetch c s =
      s\<lparr> messages := messages s @ [userMessage c], isLoading := False,
         error := Some (catch_message e) \<rparr>"
    by (simp add: addMessage_def addMessage_start_def addMessage_finish_def)
  then show ?thesis by blast
next
  case (Inr data)
  show ?thesis
  proof (cases "get_response data")
    case (Inl e)
    with Inr have "addMessage fetch c s =
        s\<lparr> messages := messages s @ [userMessage c], isLoading := False,
           error := Some (catch_message e) \<rparr>"
      by (simp add: addMessage_def addMessage_start_def addMessage_finish_def)
    then show ?thesis by blast
  next
    case (Inr r)
    with \<open>sendChatMessage fetch (addMessage_outbound (addMessage_start c s)) = Inr data\<close>
    have "addMessage fetch c s =
        s\<lparr> messages := messages s @ [userMessage c, assistantMessage r],
           isLoading := False, error := None \<rparr>"
      by (simp add: addMessage_def addMessage_start_def addMessage_finish_def)
    then show ?thesis by blast
  qed
qed

text \<open>
  The settling of an exchange acts on the state the store holds at that moment: a returned
  value whose \<open>response\<close> can be read appends one assistant message and leaves the error
  field as it finds it.
\<close>

lemma settle_returned:
  "get_response data = Inr r \<Longrightarrow>
   addMessage_finish (Inr data) s =
     s\<lparr> messages := messages s @ [assistantMessage r], isLoading := False \<rparr>"
  by (simp add: addMessage_finish_def)

section \<open>Properties\<close>

text \<open>
  C1. The claim that every submission whose exchange succeeds ends with exactly the user
  and the assistant message appended and with \<open>error = null\<close> does not hold when another
  operation runs during the exchange. The settling writes into the state the store holds at
  that moment and does not write the error field: after a \<open>setError\<close> during the exchange
  the error is still set, and after a \<open>clear\<close> during the exchange the user message is gone
  and the assistant message stands alone.
\<close>

theorem submit_success_counterexample:
  "sendChatMessage_settle (Resolved \<lparr> status = 200, json = Inr (JObj [(''response'', JStr ''r'')]) \<rparr>)
     = Inr (JObj [(''response'', JStr ''r'')])
   \<and> get_response (JObj [(''response'', JStr ''r'')]) = Inr (JStr ''r'')
   \<and> run [Submit ''a'', SetError (Some ''x''),
           Settle (Resolved \<lparr> status = 200, json = Inr (JObj [(''response'', JStr ''r'')]) \<rparr>)] initial
      = \<lparr> messages = [\<lparr> role = User, content = JStr ''a'' \<rparr>,
                      \<lparr> role = Assistant, content = JStr ''r'' \<rparr>],
          isLoading = False, error = Some ''x'' \<rparr>
   \<and> error (run [Submit ''a'', SetError (Some ''x''),
           Settle (Resolved \<lparr> status = 200, json = Inr (JObj [(''response'', JStr ''r'')]) \<rparr>)] initial)
      \<noteq> None
   \<and> run [Submit ''a'', Clear,
           Settle (Resolved \<lparr> status = 200, json = Inr (JObj [(''response'', JStr ''r'')]) \<rparr>)] initial
      = \<lparr> messages = [\<lparr> role = Assistant, content = JStr ''r'' \<rparr>],
          isLoading = False, error = None \<rparr>
   \<and> messages (run [Submit ''a'', Clear,
           Settle (Resolved \<lparr> status = 200, json = Inr (JObj [(''response'', JStr ''r'')]) \<rparr>)] initial)
      \<noteq> messages initial @ [\<lparr> role = User, content = JStr ''a'' \<rparr>,
                              \<lparr> role = Assistant, content = JStr ''r'' \<rparr>]"
  by (simp add: run_def sendChatMessage_settle_def ok_def addMessage_start_def addMessage_finish_def
      setError_def clearMessages_def initial_def userMessage_def assistantMessage_def)

text \<open>
  C1, as amended. A submission whose exchange succeeds, the transport returning a value
  whose \<open>response\<close> field reads as \<open>r\<close>, and during whose exchange no other operation runs
  on the store (the settling follows the start directly): relative to the state before the
  submission, exactly two messages are appended, the user message with the given content
  and then the assistant message with content \<open>r\<close>; the final state has
  \<open>isLoading = false\<close> and \<open>error = null\<close>.
\<close>

theorem submit_success:
  assumes "sendChatMessage fetch (SYSTEM_MESSAGE # messages s @ [userMessage c]) = Inr data"
    and "get_response data = Inr r"
  shows "run [Submit c, Settle (fetch (chat_request (SYSTEM_MESSAGE # messages s @ [userMessage c])))] s =
           s\<lparr> messages := messages s @ [userMessage c, assistantMessage r],
              isLoading := False, error := None \<rparr>
         \<and> addMessage fetch c s =
           s\<lparr> messages := messages s @ [userMessage c, assistantMessage r],
              isLoading := False, error := None \<rparr>"
proof -
  from assms(1) have settled:
    "sendChatMessage_settle (fetch (chat_request (SYSTEM_MESSAGE # messages s @ [userMessage c]))) = Inr data"
    by (simp add: sendChatMessage_def)
  with assms(2) have "run [Submit c, Settle (fetch (chat_request (SYSTEM_MESSAGE # messages s @ [userMessage c])))] s =
           s\<lparr> messages := messages s @ [userMessage c, assistantMessage r],
              isLoading := False, error := None \<rparr>"
    by (simp add: run_def addMessage_start_def addMessage_finish_def)
  moreover from assms have "addMessage fetch c s =
           s\<lparr> messages := messages s @ [userMessage c, assistantMessage r],
              isLoading := False, error := None \<rparr>"
    by (simp add: addMessage_def addMessage_start_def addMessage_outbound_def addMessage_finish_def)
  ultimately show ?thesis by blast
qed

theorem submit_success_witness:
  "sendChatMessage
       (respond_with (Resolved \<lparr> status = 200,
          json = Inr (JObj [(''response'', JStr ''Mangroves are coastal trees...'')]) \<rparr>))
       (SYSTEM_MESSAGE # messages initial @ [userMessage ''What are mangroves?''])
     = Inr (JObj [(''response'', JStr ''Mangroves are coastal trees...'')])
   \<and> get_response (JObj [(''response'', JStr ''Mangroves are coastal trees...'')])
     = Inr (JStr ''Mangroves are coastal trees...'')
   \<and> addMessage
       (respond_with (Resolved \<lparr> status = 200,
          json = Inr (JObj [(''response'', JStr ''Mangroves are coastal trees...'')]) \<rparr>))
       ''What are mangroves?'' initial
     = \<lparr> messages = [\<lparr> role = User, content = JStr ''What are mangroves?'' \<rparr>,
                     \<lparr> role = Assistant, content = JStr ''Mangroves are coastal trees...'' \<rparr>],
         isLoading = False, error = None \<rparr>"
proof -
  have h1: "sendChatMessage
       (respond_with (Resolved \<lparr> status = 200,
          json = Inr (JObj [(''response'', JStr ''Mangroves are coastal trees...'')]) \<rparr>))
       (SYSTEM_MESSAGE # messages initial @ [userMessage ''What are mangroves?''])
     = Inr (JObj [(''response'', JStr ''Mangroves are coastal trees...'')])"
    by (simp add: sendChatMessage_def sendChatMessage_settle_def respond_with_def ok_def)
  have h2: "get_response (JObj [(''response'', JStr ''Mangroves are coastal trees...'')])
     = Inr (JStr ''Mangroves are coastal trees...'')"
    by simp
  from submit_success [OF h1 h2] h1 h2 show ?thesis
    by (simp add: initial_def userMessage_def assistantMessage_def)
qed

text \<open>
  C2. The claim that every submission whose exchange fails leaves exactly the user message
  appended, in place, does not hold when another operation runs during the exchange: after
  a \<open>clear\<close> during the exchange the user message is gone, and with a second submission
  settled in between, the failing one ends with three messages appended, an assistant
  message among them.
\<close>

theorem submit_failure_counterexample:
  "sendChatMessage_settle (Rejected (JsError ''Failed to fetch'')) = Inl (JsError ''Failed to fetch'')
   \<and> run [Submit ''a'', Clear, Settle (Rejected (JsError ''Failed to fetch''))] initial
      = \<lparr> messages = [], isLoading = False, error = Some ''Failed to fetch'' \<rparr>
   \<and> messages (run [Submit ''a'', Clear, Settle (Rejected (JsError ''Failed to fetch''))] initial)
      \<noteq> messages initial @ [\<lparr> role = User, content = JStr ''a'' \<rparr>]
   \<and> run [Submit ''a'', Submit ''b'',
           Settle (Resolved \<lparr> status = 200, json = Inr (JObj [(''response'', JStr ''to b'')]) \<rparr>),
           Settle (Rejected (JsError ''Failed to fetch''))] initial
      = \<lparr> messages = [\<lparr> role = User, content = JStr ''a'' \<rparr>,
                      \<lparr> role = User, content = JStr ''b'' \<rparr>,
                      \<lparr> role = Assistant, content = JStr ''to b'' \<rparr>],
          isLoading = False, error = Some ''Failed to fetch'' \<rparr>"
  by (simp add: run_def sendChatMessage_settle_def ok_def addMessage_start_def addMessage_finish_def
      clearMessages_def initial_def userMessage_def assistantMessage_def)

text \<open>
  C2, as amended. A submission whose exchange fails, the transport throwing \<open>e\<close>, and during
  whose exchange no other operation runs on the store (the settling follows the start
  directly): relative to the state before the submission, exactly one message is appended,
  the user message with the given content; no assistant message is appended; the final
  state has \<open>isLoading = false\<close> and an error that is not null, the message of \<open>e\<close> (or the
  fixed text when \<open>e\<close> is no \<open>Error\<close>).
\<close>

theorem submit_failure:
  assumes "sendChatMessage fetch (SYSTEM_MESSAGE # messages s @ [userMessage c]) = Inl e"
  shows "run [Submit c, Settle (fetch (chat_request (SYSTEM_MESSAGE # messages s @ [userMessage c])))] s =
           s\<lparr> messages := messages s @ [userMessage c],
              isLoading := False, error := Some (catch_message e) \<rparr>
         \<and> addMessage fetch c s =
           s\<lparr> messages := messages s @ [userMessage c],
              isLoading := False, error := Some (catch_message e) \<rparr>
         \<and> error (addMessage fetch c s) \<noteq> None
         \<and> length (messages (addMessage fetch c s)) = length (messages s) + 1
         \<and> Assistant \<notin> role ` set (drop (length (messages s)) (messages (addMessage fetch c s)))"
proof -
  from assms have settled:
    "sendChatMessage_settle (fetch (chat_request (SYSTEM_MESSAGE # messages s @ [userMessage c]))) = Inl e"
    by (simp add: sendChatMessage_def)
  then have "run [Submit c, Settle (fetch (chat_request (SYSTEM_MESSAGE # messages s @ [userMessage c])))] s =
           s\<lparr> messages := messages s @ [userMessage c],
              isLoading := False, error := Some (catch_message e) \<rparr>"
    by (simp add: run_def addMessage_start_def addMessage_finish_def)
  moreover from assms have "addMessage fetch c s =
           s\<lparr> messages := messages s @ [userMessage c],
              isLoading := False, error := Some (catch_message e) \<rparr>"
    by (simp add: addMessage_def addMessage_start_def addMessage_outbound_def addMessage_finish_def)
  ultimately show ?thesis by (simp add: userMessage_def)
qed

theorem submit_failure_witness:
  "sendChatMessage (respond_with (Rejected (JsError ''Failed to fetch'')))
       (SYSTEM_MESSAGE # messages initial @ [userMessage ''test''])
     = Inl (JsError ''Failed to fetch'')
   \<and> addMessage (respond_with (Rejected (JsError ''Failed to fetch''))) ''test'' initial
     = \<lparr> messages = [\<lparr> role = User, content = JStr ''test'' \<rparr>],
         isLoading = False, error = Some ''Failed to fetch'' \<rparr>"
proof -
  have h: "sendChatMessage (respond_with (Rejected (JsError ''Failed to fetch'')))
       (SYSTEM_MESSAGE # messages initial @ [userMessage ''test''])
     = Inl (JsError ''Failed to fetch'')"
    by (simp add: sendChatMessage_def sendChatMessage_settle_def respond_with_def)
  from submit_failure [OF h] h show ?thesis
    by (simp add: initial_def userMessage_def)
qed

text \<open>
  C3. For every submission the list transmitted to the endpoint is the system persona
  message followed by the whole updated history, the user turn just appended included;
  every request sent along any sequence of operations has the persona first; and the
  persona is never an element of the stored messages, after any sequence of operations
  from the initial state.
\<close>

theorem persona:
  "addMessage_outbound (addMessage_start c s) = SYSTEM_MESSAGE # (messages s @ [userMessage c])
   \<and> emitted (Submit c) s = [chat_request (SYSTEM_MESSAGE # (messages s @ [userMessage c]))]
   \<and> list_all (\<lambda>r. take 1 (ChatRequest.messages (body r)) = [SYSTEM_MESSAGE]) (sent evs s)
   \<and> SYSTEM_MESSAGE \<notin> set (messages (run evs initial))"
proof -
  have "System \<notin> role ` set (messages initial)" by (simp add: initial_def)
  then have "System \<notin> role ` set (messages (run evs initial))" by (rule run_roles)
  then have "SYSTEM_MESSAGE \<notin> set (messages (run evs initial))"
    using role_SYSTEM_MESSAGE by force
  moreover have "addMessage_outbound (addMessage_start c s) = SYSTEM_MESSAGE # (messages s @ [userMessage c])"
    by (simp add: addMessage_outbound_def messages_start)
  moreover have "emitted (Submit c) s = [chat_request (SYSTEM_MESSAGE # (messages s @ [userMessage c]))]"
    by (simp add: addMessage_outbound_def messages_start)
  ultimately show ?thesis
    using sent_persona_first [of evs s] by blast
qed

text \<open>
  C4. Over all sequences of operations the messages only grow by appending, or are reset
  to empty by \<open>clear\<close>. Each single step either is \<open>clear\<close> and empties the list, or
  appends at most one message; a whole submission appends one or two; and along a run
  without \<open>clear\<close> the earlier list stays a prefix, so no message is edited or moved.
\<close>

theorem append_only:
  "((e = Clear \<and> messages (step e s) = [])
      \<or> (\<exists>ext. length ext \<le> 1 \<and> messages (step e s) = messages s @ ext))
   \<and> (\<exists>ext. (length ext = 1 \<or> length ext = 2) \<and> messages (addMessage fetch c s) = messages s @ ext)
   \<and> (Clear \<notin> set evs \<longrightarrow> prefix (messages s) (messages (run evs s)))
   \<and> messages (clearMessages s) = []"
  using step_messages [of e s] addMessage_messages [of fetch c s] run_prefix [of evs s]
  by (simp add: clearMessages_def)


theorem append_only_witness:
  "Clear \<notin> set [Submit ''a'', SetError (Some ''x''), Settle (Rejected NonError), Submit ''b'']
   \<and> prefix (messages (addMessage_start ''z'' initial))
        (messages (run [Submit ''a'', SetError (Some ''x''), Settle (Rejected NonError), Submit ''b'']
           (addMessage_start ''z'' initial)))
   \<and> messages (run [Submit ''a'', SetError (Some ''x''), Settle (Rejected NonError), Submit ''b'']
           (addMessage_start ''z'' initial))
       = [userMessage ''z'', userMessage ''a'', userMessage ''b'']"
proof -
  have h: "Clear \<notin> set [Submit ''a'', SetError (Some ''x''), Settle (Rejected NonError), Submit ''b'']"
    by simp
  have v: "messages (run [Submit ''a'', SetError (Some ''x''), Settle (Rejected NonError), Submit ''b'']
           (addMessage_start ''z'' initial))
       = [userMessage ''z'', userMessage ''a'', userMessage ''b'']"
    by (simp add: run_def addMessage_start_def addMessage_finish_def sendChatMessage_settle_def
        setError_def initial_def)
  from append_only [where evs = "[Submit ''a'', SetError (Some ''x''), Settle (Rejected NonError), Submit ''b'']"
      and s = "addMessage_start ''z'' initial"] h
  have "prefix (messages (addMessage_start ''z'' initial))
        (messages (run [Submit ''a'', SetError (Some ''x''), Settle (Rejected NonError), Submit ''b'']
           (addMessage_start ''z'' initial)))"
    by blast
  with h v show ?thesis by blast
qed



text \<open>
  C6. The claim that a success status with a malformed body (one without the
  response-text field) makes the transport report a failure does not hold: the body
  \<open>{}\<close> with status 200 is returned as a successful result, and the submission then
  appends an assistant message whose content is \<open>undefined\<close>.
\<close>

theorem malformed_body_counterexample:
  "ok \<lparr> status = 200, json = Inr (JObj []) \<rparr>
   \<and> map_of [] ''response'' = (None :: jsvalue option)
   \<and> \<not> isl (sendChatMessage (respond_with (Resolved \<lparr> status = 200, json = Inr (JObj []) \<rparr>))
        [SYSTEM_MESSAGE, userMessage ''test''])
   \<and> sendChatMessage (respond_with (Resolved \<lparr> status = 200, json = Inr (JObj []) \<rparr>))
        [SYSTEM_MESSAGE, userMessage ''test'']
     = Inr (JObj [])
   \<and> addMessage (respond_with (Resolved \<lparr> status = 200, json = Inr (JObj []) \<rparr>)) ''test'' initial
     = \<lparr> messages = [\<lparr> role = User, content = JStr ''test'' \<rparr>,
                     \<lparr> role = Assistant, content = JUndefined \<rparr>],
         isLoading = False, error = None \<rparr>"
  by (simp add: ok_def sendChatMessage_def sendChatMessage_settle_def respond_with_def
      addMessage_def addMessage_start_def addMessage_outbound_def addMessage_finish_def
      initial_def userMessage_def assistantMessage_def)

text \<open>
  C6, as amended. For every exchange whose response has a success status, the result of
  the transport is the outcome of reading the body as JSON: a failure when the body is
  not JSON text, and the parsed value otherwise, returned as a success whether or not it
  has the response-text field.
\<close>

theorem success_status_body:
  assumes "fetch (chat_request msgs) = Resolved resp"
    and "200 \<le> status resp \<and> status resp \<le> 299"
  shows "sendChatMessage fetch msgs = json resp"
  using assms
  by (simp add: sendChatMessage_def sendChatMessage_settle_def ok_def split: sum.splits)

theorem success_status_body_witness:
  "sendChatMessage (respond_with (Resolved \<lparr> status = 200, json = Inl (JsError ''Unexpected end of JSON input'') \<rparr>))
        [SYSTEM_MESSAGE, userMessage ''test'']
     = Inl (JsError ''Unexpected end of JSON input'')"
proof -
  have h1: "respond_with (Resolved \<lparr> status = 200, json = Inl (JsError ''Unexpected end of JSON input'') \<rparr>)
      (chat_request [SYSTEM_MESSAGE, userMessage ''test''])
      = Resolved \<lparr> status = 200, json = Inl (JsError ''Unexpected end of JSON input'') \<rparr>"
    by (simp add: respond_with_def)
  have h2: "200 \<le> status \<lparr> status = 200, json = Inl (JsError ''Unexpected end of JSON input'') \<rparr>
     \<and> status \<lparr> status = 200, json = Inl (JsError ''Unexpected end of JSON input'') \<rparr> \<le> 299"
    by simp
  from success_status_body
    [where fetch = "respond_with (Resolved \<lparr> status = 200, json = Inl (JsError ''Unexpected end of JSON input'') \<rparr>)"
       and msgs = "[SYSTEM_MESSAGE, userMessage ''test'']"
       and resp = "\<lparr> status = 200, json = Inl (JsError ''Unexpected end of JSON input'') \<rparr>", OF h1 h2]
  show ?thesis by simp
qed

text \<open>
  C7. \<open>clear\<close> sets the messages to the empty sequence and the error to null from any
  state, and applying it twice is the same as applying it once. A submission followed by
  \<open>clear\<close> ends in the initial state, whatever turns came before it, so the final
  messages and error do not depend on the number of prior turns.
\<close>

theorem clear_idempotent:
  "messages (clearMessages s) = []
   \<and> error (clearMessages s) = None
   \<and> isLoading (clearMessages s) = isLoading s
   \<and> clearMessages (clearMessages s) = clearMessages s
   \<and> clearMessages (addMessage fetch c (fold (addMessage fetch') cs s)) = initial
   \<and> messages (clearMessages (addMessage fetch c (fold (addMessage fetch') cs s)))
       = messages (clearMessages (addMessage fetch c s))
   \<and> error (clearMessages (addMessage fetch c (fold (addMessage fetch') cs s)))
       = error (clearMessages (addMessage fetch c s))"
proof -
  have fin: "isLoading (addMessage_finish res t) = False" for res t
    by (simp add: addMessage_finish_def split: sum.splits)
  have "clearMessages (addMessage f x t) = initial" for f x t
    using fin [of "sendChatMessage f (addMessage_outbound (addMessage_start x t))" "addMessage_start x t"]
    by (cases "addMessage f x t") (simp add: clearMessages_def initial_def addMessage_def Let_def)
  then show ?thesis by (simp add: clearMessages_def)
qed

text \<open>
  C8. Every request goes to the base endpoint at path \<open>/chat\<close>, with a body that holds
  the message list, a temperature of 0.7 and a maximum response length of 500. The
  request is a function of the message list alone, so the sampling parameters are the
  same on every request sent along any sequence of operations.
\<close>

theorem request_shape:
  "url (chat_request msgs) = API_BASE_URL @ ''/chat''
   \<and> http_method (chat_request msgs) = ''POST''
   \<and> ChatRequest.messages (body (chat_request msgs)) = msgs
   \<and> temperature (body (chat_request msgs)) = Some (7 / 10)
   \<and> max_tokens (body (chat_request msgs)) = Some 500
   \<and> sendChatMessage fetch msgs = sendChatMessage_settle (fetch (chat_request msgs))
   \<and> emitted (Submit c) s = [chat_request (SYSTEM_MESSAGE # messages s @ [userMessage c])]
   \<and> list_all (\<lambda>r. url r = API_BASE_URL @ ''/chat''
                  \<and> temperature (body r) = Some (7 / 10)
                  \<and> max_tokens (body r) = Some 500) (sent evs s)"
proof -
  have "list_all (\<lambda>r. url r = API_BASE_URL @ ''/chat''
                  \<and> temperature (body r) = Some (7 / 10)
                  \<and> max_tokens (body r) = Some 500) (sent evs s)"
    by (rule sent_list_all) (simp add: chat_request_def)
  then show ?thesis
    by (simp add: chat_request_def sendChatMessage_def addMessage_outbound_def
        addMessage_start_def)
qed

text \<open>
  C9. For every content string, the empty string and strings of blanks included,
  a submission appends a user message carrying exactly that content and issues the
  request with it; there is no check of the content.
\<close>

theorem submit_any_content:
  "messages (addMessage_start c s) = messages s @ [\<lparr> role = User, content = JStr c \<rparr>]
   \<and> emitted (Submit c) s
       = [chat_request (SYSTEM_MESSAGE # messages s @ [\<lparr> role = User, content = JStr c \<rparr>])]
   \<and> take (Suc (length (messages s))) (messages (addMessage fetch c s))
       = messages s @ [\<lparr> role = User, content = JStr c \<rparr>]
   \<and> messages (addMessage_start [] s) = messages s @ [\<lparr> role = User, content = JStr [] \<rparr>]
   \<and> messages (addMessage_start ''   '' s) = messages s @ [\<lparr> role = User, content = JStr ''   '' \<rparr>]"
  using messages_finish [of "sendChatMessage fetch (addMessage_outbound (addMessage_start c s))" "addMessage_start c s"]
  by (auto simp: addMessage_def Let_def addMessage_start_def addMessage_outbound_def userMessage_def)

text \<open>
  C10. \<open>setError x\<close> assigns \<open>x\<close> (a text or null) to the error field and changes nothing
  else: from every state and for every argument, the messages and the loading flag are
  as before.
\<close>

theorem setError_frame:
  "error (setError x s) = x
   \<and> messages (setError x s) = messages s
   \<and> isLoading (setError x s) = isLoading s
   \<and> setError x s = s\<lparr> error := x \<rparr>"
  by (simp add: setError_def)

end
